theory Spec2Isabelle
  imports Complex_Main "HOL-Library.Multiset"
begin

section \<open>Numeric conventions\<close>

text \<open>
  A Python float is a binary64 number and is modelled by the real number it denotes.
  \<open>abs\<close>, \<open>max\<close>, negation and the comparisons of floats are exact.  Where the
  code subtracts or divides floats, or reads a decimal literal, the exact result is
  rounded to the nearest binary64 number, ties to the even significand: this is
  \<open>to_double\<close>.  Magnitudes from \<open>2^1024\<close> on, which a float turns into infinity,
  are outside the model; timestamps and angles stay far below.

  \<open>round(x, n)\<close> on a float rounds the exact value of \<open>x\<close> to \<open>n\<close> decimals, an
  exact tie going to the even neighbour, and returns the float nearest to that
  decimal; \<open>py_round\<close> is that decimal.  The weighted average of the gaze smoother
  is taken with exact sums and products.
\<close>

definition round_half_even :: "real \<Rightarrow> int" where
  "round_half_even x =
     (let f = \<lfloor>x\<rfloor>; d = x - of_int f in
      if d < 1 / 2 then f
      else if 1 / 2 < d then f + 1
      else if even f then f else f + 1)"

definition py_round :: "real \<Rightarrow> nat \<Rightarrow> real" where
  "py_round x n = of_int (round_half_even (x * 10 ^ n)) / 10 ^ n"

text \<open>
  The binary exponent of a positive real, the \<open>e\<close> with \<open>2^e \<le> x < 2^(e+1)\<close>, found
  by halving or doubling.
\<close>

definition pow2 :: "int \<Rightarrow> real" where
  "pow2 k = (if 0 \<le> k then 2 ^ nat k else 1 / 2 ^ nat (- k))"

function binary_exponent :: "real \<Rightarrow> int" where
  "binary_exponent x =
     (if x \<le> 0 then 0
      else if 2 \<le> x then binary_exponent (x / 2) + 1
      else if x < 1 then binary_exponent (x * 2) - 1
      else 0)"
  by pat_completeness auto
termination
proof (relation "measure (\<lambda>x. nat \<bar>\<lfloor>log 2 x\<rfloor>\<bar>)")
  show "wf (measure (\<lambda>x. nat \<bar>\<lfloor>log 2 x\<rfloor>\<bar>))" by simp
next
  fix x :: real
  assume "\<not> x \<le> 0" and x: "2 \<le> x"
  have l: "log 2 (x / 2) = log 2 x - 1" using x by (simp add: log_divide)
  have "1 \<le> log 2 x" using x by (simp add: le_log_iff)
  then have "1 \<le> \<lfloor>log 2 x\<rfloor>" by linarith
  moreover have "\<lfloor>log 2 x - 1\<rfloor> = \<lfloor>log 2 x\<rfloor> - 1" by linarith
  ultimately show "(x / 2, x) \<in> measure (\<lambda>x. nat \<bar>\<lfloor>log 2 x\<rfloor>\<bar>)"
    by (simp add: l)
next
  fix x :: real
  assume p: "\<not> x \<le> 0" and "\<not> 2 \<le> x" and x: "x < 1"
  have l: "log 2 (x * 2) = log 2 x + 1" using p by (simp add: log_mult)
  have "log 2 x < 0" using p x by simp
  then have "\<lfloor>log 2 x\<rfloor> \<le> - 1" by linarith
  moreover have "\<lfloor>log 2 x + 1\<rfloor> = \<lfloor>log 2 x\<rfloor> + 1" by linarith
  ultimately show "(x * 2, x) \<in> measure (\<lambda>x. nat \<bar>\<lfloor>log 2 x\<rfloor>\<bar>)"
    by (simp add: l)
qed

text \<open>
  Rounding to binary64: 53 significant bits, so the spacing at exponent \<open>e\<close> is
  \<open>2^(e - 52)\<close>; below \<open>2^-1022\<close> the spacing stays \<open>2^-1074\<close>.
\<close>

definition to_double :: "real \<Rightarrow> real" where
  "to_double x =
     (if x = 0 then 0
      else (let e = max (binary_exponent \<bar>x\<bar>) (- 1022);
                q = pow2 (e - 52)
            in of_int (round_half_even (x / q)) * q))"

text \<open>Float subtraction, and the float that the literal \<open>0.15\<close> denotes.\<close>

definition float_sub :: "real \<Rightarrow> real \<Rightarrow> real" where
  "float_sub a b = to_double (a - b)"

definition float_0_15 :: real where
  "float_0_15 = to_double (15 / 100)"

section \<open>ViolationTracker (detection_service.py)\<close>

text \<open>
  The ten keys of \<open>ViolationTracker.counts\<close>, in the insertion order of the dict
  literal of \<open>__init__\<close>.  Every dict of the tracker has exactly these keys.
\<close>

datatype category =
  gaze_left | gaze_right | gaze_up | gaze_down
  | head_left | head_right | head_up | head_down
  | face_missing | multiple_faces

definition all_categories :: "category list" where
  "all_categories =
     [gaze_left, gaze_right, gaze_up, gaze_down,
      head_left, head_right, head_up, head_down,
      face_missing, multiple_faces]"

text \<open>One value of \<open>active_violations\<close>.\<close>

record violation_state =
  active :: bool
  start_time :: real
  duration :: real
  max_intensity :: real

text \<open>
  One element of \<open>violation_events\<close>: the dict with the keys \<open>type\<close>,
  \<open>timestamp\<close>, \<open>duration\<close> and \<open>intensity\<close>.
\<close>

record violation_event =
  ev_type :: category
  ev_timestamp :: real
  ev_duration :: real
  ev_intensity :: real

record tracker =
  counts :: "category \<Rightarrow> nat"
  timestamps :: "category \<Rightarrow> real list"
  active_violations :: "category \<Rightarrow> violation_state"
  max_intensities :: "category \<Rightarrow> real"
  violation_events :: "violation_event list"

text \<open>
  The dict returned by \<open>ProctoringConfig.get_default_thresholds\<close>, the only
  value ever passed as \<open>thresholds\<close>; it always has the five keys.
\<close>

record thresholds =
  eye_horizontal :: real
  eye_vertical :: real
  yaw_threshold :: real
  pitch_threshold :: real
  roll_threshold :: real

text \<open>\<open>ViolationTracker.__init__\<close>\<close>

definition init_tracker :: tracker where
  "init_tracker =
     \<lparr> counts = (\<lambda>_. 0),
       timestamps = (\<lambda>_. []),
       active_violations =
         (\<lambda>_. \<lparr> active = False, start_time = 0, duration = 0, max_intensity = 0 \<rparr>),
       max_intensities = (\<lambda>_. 0),
       violation_events = [] \<rparr>"

text \<open>\<open>ViolationTracker._start_violation\<close>\<close>

definition start_violation :: "category \<Rightarrow> real \<Rightarrow> real \<Rightarrow> tracker \<Rightarrow> tracker" where
  "start_violation violation_type timestamp intensity s =
     s\<lparr> active_violations := (active_violations s)
          (violation_type :=
             \<lparr> active = True, start_time = timestamp, duration = 0,
               max_intensity = intensity \<rparr>) \<rparr>"

text \<open>
  \<open>ViolationTracker._update_violation\<close>; \<open>float(state['start_time'])\<close> is the stored
  float itself.
\<close>

definition update_violation :: "category \<Rightarrow> real \<Rightarrow> real \<Rightarrow> tracker \<Rightarrow> tracker" where
  "update_violation violation_type timestamp intensity s =
     (let state = active_violations s violation_type;
          state1 = state\<lparr> duration := float_sub timestamp (start_time state) \<rparr>;
          state2 = state1\<lparr> max_intensity := max (max_intensity state1) intensity \<rparr>
      in s\<lparr> active_violations := (active_violations s)(violation_type := state2),
            max_intensities := (max_intensities s)
              (violation_type :=
                 max (max_intensities s violation_type) (max_intensity state2)) \<rparr>)"

text \<open>\<open>ViolationTracker._end_violation\<close>\<close>

definition end_violation :: "category \<Rightarrow> tracker \<Rightarrow> tracker" where
  "end_violation violation_type s =
     (let state = active_violations s violation_type;
          s1 = (if active state then
                  (if float_0_15 \<le> duration state
                   then s\<lparr> counts := (counts s)
                             (violation_type := counts s violation_type + 1),
                           timestamps := (timestamps s)
                             (violation_type :=
                                timestamps s violation_type @ [py_round (start_time state) 2]),
                           violation_events := violation_events s @
                             [\<lparr> ev_type = violation_type,
                                ev_timestamp = start_time state,
                                ev_duration = py_round (duration state) 1,
                                ev_intensity = max_intensity state \<rparr>] \<rparr>
                   else s)
                else s)
      in s1\<lparr> active_violations := (active_violations s1)
             (violation_type := (active_violations s1 violation_type)\<lparr> active := False \<rparr>) \<rparr>)"

text \<open>\<open>ViolationTracker._check_and_update_violation\<close>\<close>

definition check_and_update_violation ::
  "category \<Rightarrow> bool \<Rightarrow> real \<Rightarrow> real \<Rightarrow> tracker \<Rightarrow> tracker" where
  "check_and_update_violation violation_type condition timestamp intensity s =
     (let is_active = active (active_violations s violation_type) in
      if condition then
        (if \<not> is_active then start_violation violation_type timestamp intensity s
         else update_violation violation_type timestamp intensity s)
      else
        (if is_active then end_violation violation_type s else s))"

text \<open>
  The arguments of \<open>_check_and_update_violation\<close> as \<open>update\<close> writes them:
  \<open>x is not None and x < -t\<close>, \<open>x is not None and x > t\<close> and
  \<open>abs(x) if x is not None else 0.0\<close>.
\<close>

definition below :: "real option \<Rightarrow> real \<Rightarrow> bool" where
  "below x t = (case x of None \<Rightarrow> False | Some v \<Rightarrow> v < - t)"

definition above :: "real option \<Rightarrow> real \<Rightarrow> bool" where
  "above x t = (case x of None \<Rightarrow> False | Some v \<Rightarrow> t < v)"

definition abs_or_zero :: "real option \<Rightarrow> real" where
  "abs_or_zero x = (case x of None \<Rightarrow> 0 | Some v \<Rightarrow> \<bar>v\<bar>)"

text \<open>
  \<open>ViolationTracker.update\<close>: ten calls in the order of the source; the last
  two leave \<open>intensity\<close> at its default \<open>0.0\<close>.
\<close>

definition update ::
  "real \<Rightarrow> real option \<Rightarrow> real option \<Rightarrow> real option \<Rightarrow> real option \<Rightarrow> nat
     \<Rightarrow> thresholds \<Rightarrow> tracker \<Rightarrow> tracker" where
  "update timestamp gaze_h gaze_v yaw pitch num_faces thr s =
     (let s1 = check_and_update_violation gaze_left
                 (below gaze_h (eye_horizontal thr)) timestamp (abs_or_zero gaze_h) s;
          s2 = check_and_update_violation gaze_right
                 (above gaze_h (eye_horizontal thr)) timestamp (abs_or_zero gaze_h) s1;
          s3 = check_and_update_violation gaze_up
                 (below gaze_v (eye_vertical thr)) timestamp (abs_or_zero gaze_v) s2;
          s4 = check_and_update_violation gaze_down
                 (above gaze_v (eye_vertical thr)) timestamp (abs_or_zero gaze_v) s3;
          s5 = check_and_update_violation head_left
                 (below yaw (yaw_threshold thr)) timestamp (abs_or_zero yaw) s4;
          s6 = check_and_update_violation head_right
                 (above yaw (yaw_threshold thr)) timestamp (abs_or_zero yaw) s5;
          s7 = check_and_update_violation head_up
                 (below pitch (pitch_threshold thr)) timestamp (abs_or_zero pitch) s6;
          s8 = check_and_update_violation head_down
                 (above pitch (pitch_threshold thr)) timestamp (abs_or_zero pitch) s7;
          s9 = check_and_update_violation face_missing (num_faces = 0) timestamp 0 s8
      in check_and_update_violation multiple_faces (1 < num_faces) timestamp 0 s9)"

text \<open>
  \<open>ViolationTracker.finalize\<close>: the loop over \<open>active_violations.items()\<close>,
  which visits the keys in insertion order.
\<close>

definition finalize_one :: "tracker \<Rightarrow> category \<Rightarrow> tracker" where
  "finalize_one s violation_type =
     (if active (active_violations s violation_type)
      then end_violation violation_type s else s)"

definition finalize :: "tracker \<Rightarrow> tracker" where
  "finalize s = foldl finalize_one s all_categories"

text \<open>
  One sampled frame as \<open>process_video\<close> hands it to \<open>update_violations\<close>
  (\<open>roll\<close> is dropped there), and the frame loop followed by \<open>finalize\<close>.
\<close>

record frame_signal =
  fs_timestamp :: real
  fs_gaze_h :: "real option"
  fs_gaze_v :: "real option"
  fs_yaw :: "real option"
  fs_pitch :: "real option"
  fs_num_faces :: nat

definition update_frame :: "thresholds \<Rightarrow> tracker \<Rightarrow> frame_signal \<Rightarrow> tracker" where
  "update_frame thr s fr =
     update (fs_timestamp fr) (fs_gaze_h fr) (fs_gaze_v fr) (fs_yaw fr) (fs_pitch fr)
       (fs_num_faces fr) thr s"

definition feed_frames :: "thresholds \<Rightarrow> tracker \<Rightarrow> frame_signal list \<Rightarrow> tracker" where
  "feed_frames thr s frames = foldl (update_frame thr) s frames"

definition process_frames :: "thresholds \<Rightarrow> frame_signal list \<Rightarrow> tracker" where
  "process_frames thr frames = finalize (feed_frames thr init_tracker frames)"

section \<open>One category at a time\<close>

text \<open>
  Everything the tracker stores for one category: its state, count, timestamp
  list, running maximum, and its events in the order of \<open>violation_events\<close>.
\<close>

type_synonym cat_view = "violation_state \<times> nat \<times> real list \<times> real \<times> violation_event list"

definition cat_events :: "category \<Rightarrow> tracker \<Rightarrow> violation_event list" where
  "cat_events c s = filter (\<lambda>e. ev_type e = c) (violation_events s)"

definition cat_view :: "category \<Rightarrow> tracker \<Rightarrow> cat_view" where
  "cat_view c s =
     (active_violations s c, counts s c, timestamps s c, max_intensities s c, cat_events c s)"

text \<open>The effect of \<open>_end_violation\<close> and of \<open>_check_and_update_violation\<close> on a view.\<close>

definition cat_end :: "category \<Rightarrow> cat_view \<Rightarrow> cat_view" where
  "cat_end c v =
     (case v of (st, n, tss, mi, evs) \<Rightarrow>
        if active st \<and> float_0_15 \<le> duration st
        then (st\<lparr> active := False \<rparr>, n + 1, tss @ [py_round (start_time st) 2], mi,
              evs @ [\<lparr> ev_type = c, ev_timestamp = start_time st,
                       ev_duration = py_round (duration st) 1,
                       ev_intensity = max_intensity st \<rparr>])
        else (st\<lparr> active := False \<rparr>, n, tss, mi, evs))"

definition cat_step :: "category \<Rightarrow> bool \<Rightarrow> real \<Rightarrow> real \<Rightarrow> cat_view \<Rightarrow> cat_view" where
  "cat_step c b t i v =
     (case v of (st, n, tss, mi, evs) \<Rightarrow>
        if b then
          (if \<not> active st
           then (\<lparr> active = True, start_time = t, duration = 0, max_intensity = i \<rparr>,
                 n, tss, mi, evs)
           else (st\<lparr> duration := float_sub t (start_time st),
                     max_intensity := max (max_intensity st) i \<rparr>,
                 n, tss, max mi (max (max_intensity st) i), evs))
        else (if active st then cat_end c v else v))"

section \<open>The specification of the tracker\<close>

text \<open>The table of conditions; an absent measurement makes the condition false.\<close>

fun spec_condition :: "category \<Rightarrow> frame_signal \<Rightarrow> thresholds \<Rightarrow> bool" where
  "spec_condition gaze_left fr thr =
     (case fs_gaze_h fr of None \<Rightarrow> False | Some g \<Rightarrow> g < - eye_horizontal thr)"
| "spec_condition gaze_right fr thr =
     (case fs_gaze_h fr of None \<Rightarrow> False | Some g \<Rightarrow> g > eye_horizontal thr)"
| "spec_condition gaze_up fr thr =
     (case fs_gaze_v fr of None \<Rightarrow> False | Some g \<Rightarrow> g < - eye_vertical thr)"
| "spec_condition gaze_down fr thr =
     (case fs_gaze_v fr of None \<Rightarrow> False | Some g \<Rightarrow> g > eye_vertical thr)"
| "spec_condition head_left fr thr =
     (case fs_yaw fr of None \<Rightarrow> False | Some y \<Rightarrow> y < - yaw_threshold thr)"
| "spec_condition head_right fr thr =
     (case fs_yaw fr of None \<Rightarrow> False | Some y \<Rightarrow> y > yaw_threshold thr)"
| "spec_condition head_up fr thr =
     (case fs_pitch fr of None \<Rightarrow> False | Some p \<Rightarrow> p < - pitch_threshold thr)"
| "spec_condition head_down fr thr =
     (case fs_pitch fr of None \<Rightarrow> False | Some p \<Rightarrow> p > pitch_threshold thr)"
| "spec_condition face_missing fr thr = (fs_num_faces fr = 0)"
| "spec_condition multiple_faces fr thr = (fs_num_faces fr > 1)"

text \<open>The two presence categories, and the measurement an angle category reads.\<close>

definition is_presence :: "category \<Rightarrow> bool" where
  "is_presence c = (c = face_missing \<or> c = multiple_faces)"

fun axis_value :: "category \<Rightarrow> frame_signal \<Rightarrow> real option" where
  "axis_value gaze_left fr = fs_gaze_h fr"
| "axis_value gaze_right fr = fs_gaze_h fr"
| "axis_value gaze_up fr = fs_gaze_v fr"
| "axis_value gaze_down fr = fs_gaze_v fr"
| "axis_value head_left fr = fs_yaw fr"
| "axis_value head_right fr = fs_yaw fr"
| "axis_value head_up fr = fs_pitch fr"
| "axis_value head_down fr = fs_pitch fr"
| "axis_value face_missing fr = None"
| "axis_value multiple_faces fr = None"

text \<open>
  The intensity of a frame: the absolute axis value for an angle category, 0 for a
  presence category; \<open>d\<close> stands in where the angle is absent.
\<close>

definition spec_intensity :: "category \<Rightarrow> frame_signal \<Rightarrow> real \<Rightarrow> real" where
  "spec_intensity c fr d =
     (if is_presence c then 0
      else (case axis_value c fr of None \<Rightarrow> d | Some v \<Rightarrow> \<bar>v\<bar>))"

text \<open>
  What one category sees of a frame: whether its condition holds, the timestamp and
  the intensity.
\<close>

type_synonym observation = "bool \<times> real \<times> real"

definition observe :: "category \<Rightarrow> thresholds \<Rightarrow> frame_signal \<Rightarrow> observation" where
  "observe c thr fr = (spec_condition c fr thr, fs_timestamp fr, spec_intensity c fr 0)"

text \<open>
  The violation spans of a stream: the maximal runs of consecutive frames on which
  the condition holds, each as the list of its (timestamp, intensity) pairs.
\<close>

function spans :: "observation list \<Rightarrow> (real \<times> real) list list" where
  "spans [] = []"
| "spans (x # xs) =
     (if fst x then (snd x # map snd (takeWhile fst xs)) # spans (dropWhile fst xs)
      else spans xs)"
  by pat_completeness auto
termination
  by (relation "measure length") (auto simp: less_Suc_eq_le length_dropWhile_le)

text \<open>
  The event of a span.  The accumulated duration of a span is the float difference of
  the timestamps of its last and first frame; the event is created when that float is
  at least the float \<open>0.15\<close>, and it carries the start time, that duration rounded to
  one decimal, and the peak intensity of the span.
\<close>

definition span_duration :: "(real \<times> real) list \<Rightarrow> real" where
  "span_duration sp = float_sub (fst (last sp)) (fst (hd sp))"

definition span_peak :: "(real \<times> real) list \<Rightarrow> real" where
  "span_peak sp = Max (set (map snd sp))"

definition span_event :: "category \<Rightarrow> (real \<times> real) list \<Rightarrow> violation_event option" where
  "span_event c sp =
     (if float_0_15 \<le> span_duration sp
      then Some \<lparr> ev_type = c, ev_timestamp = fst (hd sp),
                  ev_duration = py_round (span_duration sp) 1,
                  ev_intensity = span_peak sp \<rparr>
      else None)"

definition spec_events :: "category \<Rightarrow> thresholds \<Rightarrow> frame_signal list \<Rightarrow> violation_event list" where
  "spec_events c thr frames = List.map_filter (span_event c) (spans (map (observe c thr) frames))"

text \<open>
  The event \<open>_end_violation\<close> appends for a state, if any, and the relation between an
  active state and the frames of the span it is tracking.
\<close>

definition emitted :: "category \<Rightarrow> violation_state \<Rightarrow> violation_event list" where
  "emitted c st =
     (if active st \<and> float_0_15 \<le> duration st
      then [\<lparr> ev_type = c, ev_timestamp = start_time st,
               ev_duration = py_round (duration st) 1, ev_intensity = max_intensity st \<rparr>]
      else [])"

definition tracks :: "violation_state \<Rightarrow> (real \<times> real) list \<Rightarrow> bool" where
  "tracks st sp \<longleftrightarrow> active st \<and> sp \<noteq> [] \<and> start_time st = fst (hd sp) \<and>
     duration st = span_duration sp \<and> max_intensity st = span_peak sp"

section \<open>Gaze smoothing (DetectionService.detect_gaze)\<close>

text \<open>
  \<open>numpy.average(a, weights=w)\<close> on two sequences of the same length: the sum of the
  products over the sum of the weights.
\<close>

definition np_average :: "real list \<Rightarrow> real list \<Rightarrow> real" where
  "np_average a w = sum_list (map2 (*) a w) / sum_list w"

definition weights :: "real list" where
  "weights = [0.1, 0.15, 0.2, 0.25, 0.3]"

definition max_history_size :: nat where
  "max_history_size = 7"

text \<open>
  The end of \<open>detect_gaze\<close>, from the return of \<open>_smooth_gaze_with_kalman\<close> on:
  \<open>kalman\<close> is the pair the Kalman step returned (the filter itself is OpenCV's),
  \<open>gaze_history\<close> the list before the call.  The result is the returned pair of
  angles and the list after the call.  \<open>pop(0)\<close> is \<open>tl\<close>, the slice \<open>[-5:]\<close>
  is \<open>drop (length - 5)\<close>.
\<close>

definition detect_gaze_smooth ::
  "(real \<times> real) list \<Rightarrow> real \<times> real \<Rightarrow> (real \<times> real) \<times> (real \<times> real) list" where
  "detect_gaze_smooth gaze_history kalman =
     (let h1 = gaze_history @ [kalman];
          h2 = (if length h1 > max_history_size then tl h1 else h1);
          angles =
            (if length h2 \<ge> 5
             then (let recent = drop (length h2 - 5) h2 in
                   (np_average (map fst recent) weights, np_average (map snd recent) weights))
             else kalman)
      in ((py_round (fst angles) 2, py_round (snd angles) 2), h2))"

text \<open>
  The weighted average of the last five entries of a history, weights
  0.10, 0.15, 0.20, 0.25, 0.30 from the oldest to the newest.
\<close>

definition spec_weighted_last5 :: "real list \<Rightarrow> real" where
  "spec_weighted_last5 xs =
     (let n = length xs in
      0.10 * xs ! (n - 5) + 0.15 * xs ! (n - 4) + 0.20 * xs ! (n - 3)
        + 0.25 * xs ! (n - 2) + 0.30 * xs ! (n - 1))"




section \<open>Head pose (DetectionService.detect_head_pose)\<close>

text \<open>
  The decomposition of the rotation matrix \<open>rotation_mat\<close> (entry \<open>R i j\<close> is
  \<open>rotation_mat[i, j]\<close>) into (pitch, yaw, roll) in radians.  \<open>numpy.arctan2\<close> is a
  parameter.
\<close>

definition euler_angles ::
  "(real \<Rightarrow> real \<Rightarrow> real) \<Rightarrow> (nat \<Rightarrow> nat \<Rightarrow> real) \<Rightarrow> real \<times> real \<times> real" where
  "euler_angles arctan2 R =
     (let sy = sqrt ((R 0 0)\<^sup>2 + (R 1 0)\<^sup>2);
          singular = (sy < 1 / 10 ^ 6)
      in if \<not> singular
         then (arctan2 (R 2 1) (R 2 2), arctan2 (- R 2 0) sy, arctan2 (R 1 0) (R 0 0))
         else (arctan2 (- R 1 2) (R 1 1), arctan2 (- R 2 0) sy, 0))"

text \<open>\<open>numpy.degrees\<close>, and the triple \<open>detect_head_pose\<close> returns: (yaw, pitch, roll).\<close>

definition degrees :: "real \<Rightarrow> real" where
  "degrees x = x * 180 / pi"

definition head_pose_result ::
  "(real \<Rightarrow> real \<Rightarrow> real) \<Rightarrow> (nat \<Rightarrow> nat \<Rightarrow> real) \<Rightarrow> real \<times> real \<times> real" where
  "head_pose_result arctan2 R =
     (case euler_angles arctan2 R of (pitch, yaw, roll) \<Rightarrow>
        (py_round (degrees yaw) 2, py_round (degrees pitch) 2, py_round (degrees roll) 2))"

text \<open>The two-argument arctangent on the reals, for concrete evaluation.\<close>

definition arctan2_real :: "real \<Rightarrow> real \<Rightarrow> real" where
  "arctan2_real y x =
     (if 0 < x then arctan (y / x)
      else if x < 0 then (if 0 \<le> y then arctan (y / x) + pi else arctan (y / x) - pi)
      else if 0 < y then pi / 2 else if y < 0 then - pi / 2 else 0)"

section \<open>Report (VideoProcessingService._generate_new_format_report)\<close>

text \<open>The value of the key \<open>type\<close> of an event.\<close>

fun category_name :: "category \<Rightarrow> string" where
  "category_name gaze_left = ''gaze_left''"
| "category_name gaze_right = ''gaze_right''"
| "category_name gaze_up = ''gaze_up''"
| "category_name gaze_down = ''gaze_down''"
| "category_name head_left = ''head_left''"
| "category_name head_right = ''head_right''"
| "category_name head_up = ''head_up''"
| "category_name head_down = ''head_down''"
| "category_name face_missing = ''face_missing''"
| "category_name multiple_faces = ''multiple_faces''"

text \<open>Decimal rendering of integers, and the format \<open>02d\<close>.\<close>

definition digit_char :: "nat \<Rightarrow> char" where
  "digit_char d = ''0123456789'' ! d"

fun str_nat :: "nat \<Rightarrow> string" where
  "str_nat n = (if n < 10 then [digit_char n] else str_nat (n div 10) @ [digit_char (n mod 10)])"

definition str_int :: "int \<Rightarrow> string" where
  "str_int i = (if i < 0 then CHR ''-'' # str_nat (nat (- i)) else str_nat (nat i))"

definition format_02d :: "int \<Rightarrow> string" where
  "format_02d i = (let s = str_int i in if length s < 2 then CHR ''0'' # s else s)"

text \<open>
  \<open>str.replace(old, new)\<close> for a non-empty \<open>old\<close>: every occurrence, found from the
  left without overlap.
\<close>

function py_replace :: "string \<Rightarrow> string \<Rightarrow> string \<Rightarrow> string" where
  "py_replace old new [] = []"
| "py_replace old new (c # cs) =
     (if old \<noteq> [] \<and> take (length old) (c # cs) = old
      then new @ py_replace old new (drop (length old) (c # cs))
      else c # py_replace old new cs)"
  by pat_completeness auto
termination
  by (relation "measure (\<lambda>(old, new, s). length s)") auto

text \<open>
  \<open>_format_timestamp\<close>: \<open>seconds // 60\<close> is the floor of the quotient,
  \<open>seconds % 60\<close> the remainder in [0, 60), and \<open>int\<close> truncates.
\<close>

definition format_timestamp :: "real \<Rightarrow> string" where
  "format_timestamp seconds =
     (let minutes = \<lfloor>seconds / 60\<rfloor>;
          remaining_seconds = \<lfloor>seconds - 60 * of_int \<lfloor>seconds / 60\<rfloor>\<rfloor>
      in str_int minutes @ '':'' @ format_02d remaining_seconds)"

text \<open>One element of an \<open>occurrence\<close> list, and one element of \<open>gestures\<close>.\<close>

record occurrence =
  occ_timestamp :: string
  occ_duration :: real
  occ_direction :: string
  occ_intensity :: string

record gesture =
  g_name :: string
  g_occurrence :: "occurrence list"

text \<open>
  The rendering of a whole-valued non-negative float below \<open>10^16\<close> inside an
  f-string: the integer part, a point and one zero.
\<close>

definition str_float_whole :: "real \<Rightarrow> string" where
  "str_float_whole x = str_int \<lfloor>x\<rfloor> @ ''.0''"

text \<open>
  The dicts appended to \<open>head_occurrences\<close> and \<open>gaze_occurrences\<close>, and to the two
  presence lists.  \<open>str_float\<close> renders the float \<open>round(intensity, 0)\<close> in the
  f-string.
\<close>

definition movement_occurrence :: "(real \<Rightarrow> string) \<Rightarrow> string \<Rightarrow> violation_event \<Rightarrow> occurrence" where
  "movement_occurrence str_float pfx event =
     \<lparr> occ_timestamp = format_timestamp (ev_timestamp event),
       occ_duration = py_round (ev_duration event) 1,
       occ_direction = py_replace pfx [] (category_name (ev_type event)),
       occ_intensity = str_float (py_round (ev_intensity event) 0) @ '' degrees'' \<rparr>"

definition presence_occurrence :: "violation_event \<Rightarrow> occurrence" where
  "presence_occurrence event =
     \<lparr> occ_timestamp = format_timestamp (ev_timestamp event),
       occ_duration = py_round (ev_duration event) 1,
       occ_direction = [],
       occ_intensity = [] \<rparr>"

text \<open>
  The list \<open>gestures\<close> built by \<open>_generate_new_format_report\<close> from the tracker's
  events.  \<open>list.sort(key=...)\<close> is stable, as \<open>sort_key\<close> is.
\<close>

definition generate_new_format_report ::
  "(real \<Rightarrow> string) \<Rightarrow> violation_event list \<Rightarrow> gesture list" where
  "generate_new_format_report str_float events =
     (let gestures0 = [];
          head_events = sort_key ev_timestamp
            (filter (\<lambda>e. category_name (ev_type e) \<in>
                       set [''head_left'', ''head_right'', ''head_up'', ''head_down'']) events);
          head_occurrences = map (movement_occurrence str_float ''head_'') head_events;
          gestures1 = (if head_occurrences \<noteq> []
                       then gestures0 @ [\<lparr> g_name = ''head_movement'',
                                            g_occurrence = head_occurrences \<rparr>]
                       else gestures0);
          gaze_events = sort_key ev_timestamp
            (filter (\<lambda>e. category_name (ev_type e) \<in>
                       set [''gaze_left'', ''gaze_right'', ''gaze_up'', ''gaze_down'']) events);
          gaze_occurrences = map (movement_occurrence str_float ''gaze_'') gaze_events;
          gestures2 = (if gaze_occurrences \<noteq> []
                       then gestures1 @ [\<lparr> g_name = ''Eye_movement'',
                                            g_occurrence = gaze_occurrences \<rparr>]
                       else gestures1);
          face_missing_events = sort_key ev_timestamp
            (filter (\<lambda>e. category_name (ev_type e) = ''face_missing'') events);
          face_missing_occurrences = map presence_occurrence face_missing_events;
          gestures3 = (if face_missing_occurrences \<noteq> []
                       then gestures2 @ [\<lparr> g_name = ''face_missing'',
                                            g_occurrence = face_missing_occurrences \<rparr>]
                       else gestures2);
          multiple_faces_events = sort_key ev_timestamp
            (filter (\<lambda>e. category_name (ev_type e) = ''multiple_faces'') events);
          multiple_faces_occurrences = map presence_occurrence multiple_faces_events
      in (if multiple_faces_occurrences \<noteq> []
          then gestures3 @ [\<lparr> g_name = ''multiple_faces'',
                               g_occurrence = multiple_faces_occurrences \<rparr>]
          else gestures3))"

text \<open>
  The groups of the report, the prefix of a movement category, and the occurrence an
  event is turned into.
\<close>

definition spec_groups :: "(string \<times> category list) list" where
  "spec_groups =
     [(''head_movement'', [head_left, head_right, head_up, head_down]),
      (''Eye_movement'', [gaze_left, gaze_right, gaze_up, gaze_down]),
      (''face_missing'', [face_missing]),
      (''multiple_faces'', [multiple_faces])]"

definition group_members :: "string \<Rightarrow> category list" where
  "group_members n = (case map_of spec_groups n of None \<Rightarrow> [] | Some cs \<Rightarrow> cs)"

definition category_prefix :: "category \<Rightarrow> string" where
  "category_prefix c =
     (if c \<in> set [head_left, head_right, head_up, head_down] then ''head_''
      else if c \<in> set [gaze_left, gaze_right, gaze_up, gaze_down] then ''gaze_''
      else [])"

definition spec_occurrence :: "(real \<Rightarrow> string) \<Rightarrow> violation_event \<Rightarrow> occurrence" where
  "spec_occurrence str_float e =
     (if is_presence (ev_type e) then presence_occurrence e
      else movement_occurrence str_float (category_prefix (ev_type e)) e)"

definition group_gesture ::
  "(real \<Rightarrow> string) \<Rightarrow> violation_event list \<Rightarrow> string \<times> category list \<Rightarrow> gesture list" where
  "group_gesture str_float events g =
     (let es = sort_key ev_timestamp (filter (\<lambda>e. ev_type e \<in> set (snd g)) events) in
      if es = [] then []
      else [\<lparr> g_name = fst g, g_occurrence = map (spec_occurrence str_float) es \<rparr>])"

section \<open>Example inputs\<close>

text \<open>The values of \<open>ProctoringConfig.get_default_thresholds\<close>.\<close>

definition default_thresholds :: thresholds where
  "default_thresholds =
     \<lparr> eye_horizontal = 8, eye_vertical = 6, yaw_threshold = 30, pitch_threshold = 20,
       roll_threshold = 30 \<rparr>"

text \<open>A frame with one face looking straight ahead, and variations of it.\<close>

definition neutral_frame :: "real \<Rightarrow> frame_signal" where
  "neutral_frame t =
     \<lparr> fs_timestamp = t, fs_gaze_h = Some 0, fs_gaze_v = Some 0, fs_yaw = Some 0,
       fs_pitch = Some 0, fs_num_faces = 1 \<rparr>"

definition gaze_frame :: "real \<Rightarrow> real option \<Rightarrow> frame_signal" where
  "gaze_frame t g = (neutral_frame t)\<lparr> fs_gaze_h := g \<rparr>"

definition no_face_frame :: "real \<Rightarrow> frame_signal" where
  "no_face_frame t =
     \<lparr> fs_timestamp = t, fs_gaze_h = None, fs_gaze_v = None, fs_yaw = None,
       fs_pitch = None, fs_num_faces = 0 \<rparr>"

text \<open>
  The timestamp \<open>process_video\<close> gives a frame, \<open>frame_idx / fps\<close>, and a run of
  frames of a 20 fps video, given by their indices, with one horizontal gaze angle.
\<close>

definition frame_time :: "nat \<Rightarrow> real \<Rightarrow> real" where
  "frame_time frame_idx fps = to_double (of_nat frame_idx / fps)"

definition gaze_run :: "real \<Rightarrow> nat list \<Rightarrow> frame_signal list" where
  "gaze_run g idxs = map (\<lambda>i. gaze_frame (frame_time i 20) (Some g)) idxs"

text \<open>
  A gaze to the right held over the frames 0 to 2 (0.10 s), a neutral frame, then a
  gaze to the right held over the frames 4 to 8 (0.20 s) up to the end of the stream.
\<close>

definition flicker_frames :: "frame_signal list" where
  "flicker_frames =
     gaze_run 25 [0, 1, 2] @ [neutral_frame (frame_time 3 20)] @ gaze_run 28 [4, 5, 6, 7, 8]"

text \<open>
  Events of three groups, not in the order of their start times.
\<close>

definition sample_events :: "violation_event list" where
  "sample_events =
     [\<lparr> ev_type = head_left, ev_timestamp = 70, ev_duration = 1/5, ev_intensity = 71/2 \<rparr>,
      \<lparr> ev_type = face_missing, ev_timestamp = 3, ev_duration = 2/5, ev_intensity = 0 \<rparr>,
      \<lparr> ev_type = gaze_right, ev_timestamp = 9, ev_duration = 1/5, ev_intensity = 127/10 \<rparr>,
      \<lparr> ev_type = head_up, ev_timestamp = 5, ev_duration = 3/10, ev_intensity = 22 \<rparr>]"

text \<open>Two rotation matrices: the identity, and the quarter turn about the vertical axis.\<close>

definition rot_identity :: "nat \<Rightarrow> nat \<Rightarrow> real" where
  "rot_identity i j = (if i = j then 1 else 0)"

definition rot_quarter_yaw :: "nat \<Rightarrow> nat \<Rightarrow> real" where
  "rot_quarter_yaw i j =
     (if i = 0 \<and> j = 2 then 1 else if i = 1 \<and> j = 1 then 1
      else if i = 2 \<and> j = 0 then - 1 else 0)"

section \<open>The tracker, category by category\<close>

lemma float_sub_self: "float_sub a a = 0"
  by (simp add: float_sub_def to_double_def)

lemma float_0_15_value: "float_0_15 = 5404319552844595 / 2 ^ 55"
  by code_simp

lemma float_0_15_pos: "\<not> float_0_15 \<le> 0"
  by (simp add: float_0_15_value)

lemma cat_view_check:
  "cat_view c (check_and_update_violation c' b t i s) =
     (if c' = c then cat_step c b t i (cat_view c s) else cat_view c s)"
  by (auto simp: cat_view_def cat_events_def cat_step_def cat_end_def
      check_and_update_violation_def start_violation_def update_violation_def
      end_violation_def Let_def)

lemma cat_step_False:
  "cat_step c False t i v = (if active (fst v) then cat_end c v else v)"
  by (simp add: cat_step_def split: prod.splits)

lemma cat_view_finalize_one:
  "cat_view c (finalize_one s c') =
     (if c' = c \<and> active (fst (cat_view c s)) then cat_end c (cat_view c s) else cat_view c s)"
  by (auto simp: cat_view_def cat_events_def cat_end_def finalize_one_def end_violation_def Let_def)

lemma cat_view_finalize:
  "cat_view c (finalize s) =
     (if active (fst (cat_view c s)) then cat_end c (cat_view c s) else cat_view c s)"
  unfolding finalize_def all_categories_def
  by (cases c) (simp_all add: cat_view_finalize_one)

lemma cat_view_update:
  "cat_view c (update_frame thr s fr) =
     cat_step c (spec_condition c fr thr) (fs_timestamp fr) (spec_intensity c fr d)
       (cat_view c s)"
  unfolding update_frame_def update_def Let_def
  by (cases c)
     (auto simp: cat_view_check below_def above_def abs_or_zero_def spec_intensity_def
        is_presence_def cat_step_False split: option.splits)


lemma view_state: "active_violations s c = fst (cat_view c s)"
  by (simp add: cat_view_def)

lemma view_events: "cat_events c s = snd (snd (snd (snd (cat_view c s))))"
  by (simp add: cat_view_def)

lemma update_frame_state:
  "active_violations (update_frame thr s fr) c =
     (let st = active_violations s c in
      if spec_condition c fr thr then
        (if \<not> active st
         then \<lparr> active = True, start_time = fs_timestamp fr, duration = 0,
                max_intensity = spec_intensity c fr d \<rparr>
         else st\<lparr> duration := float_sub (fs_timestamp fr) (start_time st),
                   max_intensity := max (max_intensity st) (spec_intensity c fr d) \<rparr>)
      else st\<lparr> active := False \<rparr>)" (is "_ = ?rhs")
proof -
  have "active_violations (update_frame thr s fr) c =
      fst (cat_step c (spec_condition c fr thr) (fs_timestamp fr) (spec_intensity c fr d)
        (cat_view c s))"
    by (simp only: view_state cat_view_update [where d = d])
  also have "\<dots> = ?rhs"
    by (simp add: cat_view_def cat_step_def cat_end_def Let_def)
  finally show ?thesis .
qed

lemma update_frame_events:
  "cat_events c (update_frame thr s fr) =
     cat_events c s @
       (if spec_condition c fr thr then [] else emitted c (active_violations s c))"
  (is "_ = ?rhs")
proof -
  have "cat_events c (update_frame thr s fr) =
      snd (snd (snd (snd (cat_step c (spec_condition c fr thr) (fs_timestamp fr)
        (spec_intensity c fr 0) (cat_view c s)))))"
    by (simp only: view_events cat_view_update [where d = 0])
  also have "\<dots> = ?rhs"
    by (simp add: cat_view_def cat_step_def cat_end_def emitted_def Let_def)
  finally show ?thesis .
qed

lemma finalize_state: "\<not> active (active_violations (finalize s) c)"
proof -
  have "active_violations (finalize s) c =
      fst (if active (fst (cat_view c s)) then cat_end c (cat_view c s) else cat_view c s)"
    by (simp only: view_state cat_view_finalize)
  then show ?thesis
    by (simp add: cat_view_def cat_end_def split: if_splits)
qed

lemma finalize_events:
  "cat_events c (finalize s) = cat_events c s @ emitted c (active_violations s c)"
proof -
  have "cat_events c (finalize s) =
      snd (snd (snd (snd (if active (fst (cat_view c s)) then cat_end c (cat_view c s)
        else cat_view c s))))"
    by (simp only: view_events cat_view_finalize)
  also have "\<dots> = cat_events c s @ emitted c (active_violations s c)"
    by (simp add: cat_view_def cat_end_def emitted_def)
  finally show ?thesis .
qed

lemma span_duration_single: "span_duration [x] = 0"
  by (simp add: span_duration_def float_sub_self)

lemma span_duration_snoc:
  "sp \<noteq> [] \<Longrightarrow> span_duration (sp @ [x]) = float_sub (fst x) (fst (hd sp))"
  by (simp add: span_duration_def)

lemma span_peak_single: "span_peak [x] = snd x"
  by (simp add: span_peak_def)

lemma span_peak_snoc: "sp \<noteq> [] \<Longrightarrow> span_peak (sp @ [x]) = max (span_peak sp) (snd x)"
  by (simp add: span_peak_def Max_insert max.commute)



lemma emitted_span:
  "tracks st sp \<Longrightarrow> emitted c st = (case span_event c sp of None \<Rightarrow> [] | Some e \<Rightarrow> [e])"
  by (simp add: tracks_def emitted_def span_event_def)

lemma emitted_inactive: "\<not> active st \<Longrightarrow> emitted c st = []"
  by (simp add: emitted_def)

lemma observe_fst: "fst (observe c thr fr) = spec_condition c fr thr"
  by (simp add: observe_def)

lemma observe_snd: "snd (observe c thr fr) = (fs_timestamp fr, spec_intensity c fr 0)"
  by (simp add: observe_def)

lemma feed_refines:
  "(\<not> active (active_violations s c) \<longrightarrow>
      cat_events c (finalize (feed_frames thr s frames)) =
        cat_events c s @ spec_events c thr frames) \<and>
   (\<forall>sp. tracks (active_violations s c) sp \<longrightarrow>
      cat_events c (finalize (feed_frames thr s frames)) =
        cat_events c s @
          List.map_filter (span_event c)
            ((sp @ map snd (takeWhile fst (map (observe c thr) frames)))
               # spans (dropWhile fst (map (observe c thr) frames))))"
proof (induction frames arbitrary: s)
  case Nil
  show ?case
    by (auto simp: feed_frames_def finalize_events spec_events_def
        emitted_span emitted_inactive List.map_filter_simps split: option.splits)
next
  case (Cons fr frames)
  let ?s' = "update_frame thr s fr"
  let ?st = "active_violations s c"
  let ?x = "(fs_timestamp fr, spec_intensity c fr 0)"
  let ?obs = "map (observe c thr) frames"
  have feed: "feed_frames thr s (fr # frames) = feed_frames thr ?s' frames"
    by (simp add: feed_frames_def)
  have IH1: "\<not> active (active_violations ?s' c) \<Longrightarrow>
      cat_events c (finalize (feed_frames thr ?s' frames)) =
        cat_events c ?s' @ spec_events c thr frames"
    using Cons.IH [of ?s'] by blast
  have IH2: "tracks (active_violations ?s' c) sp \<Longrightarrow>
      cat_events c (finalize (feed_frames thr ?s' frames)) =
        cat_events c ?s' @ List.map_filter (span_event c)
          ((sp @ map snd (takeWhile fst ?obs)) # spans (dropWhile fst ?obs))" for sp
    using Cons.IH [of ?s'] by blast
  show ?case
  proof (cases "spec_condition c fr thr")
    case True
    note b = this
    have ev: "cat_events c ?s' = cat_events c s"
      by (simp add: update_frame_events b)
    show ?thesis
    proof (intro conjI impI allI)
      assume na: "\<not> active ?st"
      have "tracks (active_violations ?s' c) [?x]"
        using na b
        by (simp add: update_frame_state [where d = 0] tracks_def span_duration_single
            span_peak_single)
      from IH2 [OF this]
      show "cat_events c (finalize (feed_frames thr s (fr # frames))) =
          cat_events c s @ spec_events c thr (fr # frames)"
        by (simp add: feed ev spec_events_def observe_fst observe_snd b)
    next
      fix sp assume tr: "tracks ?st sp"
      have "tracks (active_violations ?s' c) (sp @ [?x])"
        using tr b
        by (simp add: update_frame_state [where d = 0] tracks_def span_duration_snoc
            span_peak_snoc)
      from IH2 [OF this]
      show "cat_events c (finalize (feed_frames thr s (fr # frames))) =
          cat_events c s @ List.map_filter (span_event c)
            ((sp @ map snd (takeWhile fst (map (observe c thr) (fr # frames))))
               # spans (dropWhile fst (map (observe c thr) (fr # frames))))"
        by (simp add: feed ev observe_fst observe_snd b)
    qed
  next
    case False
    note b = this
    have st': "\<not> active (active_violations ?s' c)"
      by (simp add: update_frame_state [where d = 0] b)
    show ?thesis
    proof (intro conjI impI allI)
      assume na: "\<not> active ?st"
      have ev: "cat_events c ?s' = cat_events c s"
        using na by (simp add: update_frame_events b emitted_inactive)
      from IH1 [OF st']
      show "cat_events c (finalize (feed_frames thr s (fr # frames))) =
          cat_events c s @ spec_events c thr (fr # frames)"
        by (simp add: feed ev spec_events_def observe_fst b)
    next
      fix sp assume tr: "tracks ?st sp"
      have ev: "cat_events c ?s' =
          cat_events c s @ (case span_event c sp of None \<Rightarrow> [] | Some e \<Rightarrow> [e])"
        using tr by (simp add: update_frame_events b emitted_span)
      from IH1 [OF st']
      show "cat_events c (finalize (feed_frames thr s (fr # frames))) =
          cat_events c s @ List.map_filter (span_event c)
            ((sp @ map snd (takeWhile fst (map (observe c thr) (fr # frames))))
               # spans (dropWhile fst (map (observe c thr) (fr # frames))))"
        by (simp add: feed ev spec_events_def observe_fst b split: option.splits)
    qed
  qed
qed

lemma process_frames_refines:
  "cat_events c (process_frames thr frames) = spec_events c thr frames"
  using feed_refines [of init_tracker c thr frames]
  by (simp add: process_frames_def init_tracker_def cat_events_def)

section \<open>The claims about the tracker\<close>

lemma cat_view_end: "cat_view c (end_violation c s) = cat_end c (cat_view c s)"
  by (simp add: cat_view_def cat_events_def cat_end_def end_violation_def Let_def)

text \<open>
  C2: on every call of \<open>update\<close>, for each of the ten categories: if its condition
  of the table holds, an inactive category is started with the frame's timestamp,
  duration 0 and the intensity, and an active one gets the float difference to its
  start as duration and the larger of its maximum and the intensity; if the condition
  does not hold the category is made inactive, an event being appended as
  \<open>_end_violation\<close> decides.  The intensity is the absolute axis value for the eight
  angle categories and 0 for the two presence categories (where the angle is absent
  the condition is false and no intensity is used, whatever \<open>d\<close> is).  The call for
  one category leaves everything stored for the others as it was.
\<close>

theorem update_evaluates_each_category:
  "active_violations (update_frame thr s fr) c =
     (if spec_condition c fr thr then
        (if \<not> active (active_violations s c)
         then \<lparr> active = True, start_time = fs_timestamp fr, duration = 0,
                max_intensity = spec_intensity c fr d \<rparr>
         else (active_violations s c)
                \<lparr> duration := float_sub (fs_timestamp fr) (start_time (active_violations s c)),
                  max_intensity :=
                    max (max_intensity (active_violations s c)) (spec_intensity c fr d) \<rparr>)
      else (active_violations s c)\<lparr> active := False \<rparr>)
   \<and> max_intensities (update_frame thr s fr) c =
       (if spec_condition c fr thr \<and> active (active_violations s c)
        then max (max_intensities s c)
               (max (max_intensity (active_violations s c)) (spec_intensity c fr d))
        else max_intensities s c)
   \<and> cat_events c (update_frame thr s fr) =
       cat_events c s @
         (if spec_condition c fr thr then [] else emitted c (active_violations s c))
   \<and> (\<forall>c'. c' \<noteq> c \<longrightarrow> cat_view c' (check_and_update_violation c b t i s) = cat_view c' s)"
proof -
  have m: "max_intensities (update_frame thr s fr) c =
      (if spec_condition c fr thr \<and> active (active_violations s c)
       then max (max_intensities s c)
              (max (max_intensity (active_violations s c)) (spec_intensity c fr d))
       else max_intensities s c)" (is "_ = ?rhs")
  proof -
    have "max_intensities (update_frame thr s fr) c =
        fst (snd (snd (snd (cat_view c (update_frame thr s fr)))))"
      by (simp add: cat_view_def)
    also have "\<dots> = fst (snd (snd (snd (cat_step c (spec_condition c fr thr)
        (fs_timestamp fr) (spec_intensity c fr d) (cat_view c s)))))"
      by (simp only: cat_view_update [where d = d])
    also have "\<dots> = ?rhs"
      by (simp add: cat_view_def cat_step_def cat_end_def)
    finally show ?thesis .
  qed
  show ?thesis
    by (simp add: m update_frame_state [where d = d] update_frame_events cat_view_check Let_def)
qed

theorem update_evaluates_each_category_witness:
  "active_violations
     (update_frame default_thresholds init_tracker (gaze_frame 0 (Some (- 25)))) gaze_left =
     \<lparr> active = True, start_time = 0, duration = 0, max_intensity = 25 \<rparr>
   \<and> active_violations
       (update_frame default_thresholds
          (update_frame default_thresholds init_tracker (gaze_frame 0 (Some (- 25))))
          (gaze_frame (1/4) (Some (- 27)))) gaze_left =
       \<lparr> active = True, start_time = 0, duration = 1/4, max_intensity = 27 \<rparr>
   \<and> cat_view gaze_right
       (check_and_update_violation gaze_left True 0 25 init_tracker) =
       cat_view gaze_right init_tracker"
proof -
  let ?f1 = "gaze_frame 0 (Some (- 25))"
  let ?f2 = "gaze_frame (1/4) (Some (- 27))"
  let ?s1 = "update_frame default_thresholds init_tracker ?f1"
  have c1: "spec_condition gaze_left ?f1 default_thresholds"
    and c2: "spec_condition gaze_left ?f2 default_thresholds"
    by (simp_all add: gaze_frame_def neutral_frame_def default_thresholds_def)
  have i1: "spec_intensity gaze_left ?f1 0 = 25"
    and i2: "spec_intensity gaze_left ?f2 0 = 27"
    by (simp_all add: spec_intensity_def is_presence_def gaze_frame_def neutral_frame_def)
  have t: "fs_timestamp ?f1 = 0" "fs_timestamp ?f2 = 1/4"
    by (simp_all add: gaze_frame_def neutral_frame_def)
  have n: "\<not> active (active_violations init_tracker gaze_left)"
    by (simp add: init_tracker_def)
  have f: "float_sub (1/4) 0 = 1/4"
    by code_simp
  note a = update_evaluates_each_category [of default_thresholds init_tracker ?f1
      gaze_left 0 True 0 25]
  from a have s1: "active_violations ?s1 gaze_left =
      \<lparr> active = True, start_time = 0, duration = 0, max_intensity = 25 \<rparr>"
    by (simp only: c1 i1 n t if_True not_False_eq_True)
  note b = update_evaluates_each_category [of default_thresholds ?s1 ?f2 gaze_left 0]
  from b have s2: "active_violations (update_frame default_thresholds ?s1 ?f2) gaze_left =
      \<lparr> active = True, start_time = 0, duration = 1/4, max_intensity = 27 \<rparr>"
    by (simp only: c2 i2 t s1 if_True) (simp add: f)
  from a have s3: "cat_view gaze_right
      (check_and_update_violation gaze_left True 0 25 init_tracker) =
      cat_view gaze_right init_tracker"
    by simp
  from s1 s2 s3 show ?thesis by (simp only: simp_thms)
qed

text \<open>
  C3: a frame on which the measurement of an angle category is absent leaves an
  inactive category as it is and takes an active one through \<open>_end_violation\<close>; in
  both cases the category is inactive afterwards.
\<close>

theorem absent_measurement_ends_violation:
  assumes "\<not> is_presence c" and "axis_value c fr = None"
  shows "\<not> spec_condition c fr thr
    \<and> cat_view c (update_frame thr s fr) =
        (if active (active_violations s c) then cat_view c (end_violation c s)
         else cat_view c s)
    \<and> \<not> active (active_violations (update_frame thr s fr) c)"
proof -
  from assms have b: "\<not> spec_condition c fr thr"
    by (cases c) (simp_all add: is_presence_def)
  have "cat_view c (update_frame thr s fr) =
      (if active (active_violations s c) then cat_view c (end_violation c s) else cat_view c s)"
    by (simp add: cat_view_update [where d = 0] b cat_step_False cat_view_end)
      (simp add: cat_view_def)
  moreover have "\<not> active (active_violations (update_frame thr s fr) c)"
    by (simp add: update_frame_state [where d = 0] b)
  ultimately show ?thesis using b by simp
qed

theorem absent_measurement_ends_violation_witness:
  "cat_events gaze_right
     (update_frame default_thresholds
        (feed_frames default_thresholds init_tracker
           [gaze_frame 0 (Some 25), gaze_frame (1/5) (Some 25)])
        (gaze_frame (2/5) None)) =
     [\<lparr> ev_type = gaze_right, ev_timestamp = 0, ev_duration = 1/5, ev_intensity = 25 \<rparr>]
   \<and> \<not> active (active_violations
        (update_frame default_thresholds
           (feed_frames default_thresholds init_tracker
              [gaze_frame 0 (Some 25), gaze_frame (1/5) (Some 25)])
           (gaze_frame (2/5) None)) gaze_right)"
proof -
  let ?s = "feed_frames default_thresholds init_tracker
              [gaze_frame 0 (Some 25), gaze_frame (1/5) (Some 25)]"
  have p: "\<not> is_presence gaze_right" by (simp add: is_presence_def)
  have a: "axis_value gaze_right (gaze_frame (2/5) None) = None"
    by (simp add: gaze_frame_def neutral_frame_def)
  have act: "active (active_violations ?s gaze_right)" by code_simp
  have ev: "snd (snd (snd (snd (cat_view gaze_right (end_violation gaze_right ?s))))) =
      [\<lparr> ev_type = gaze_right, ev_timestamp = 0, ev_duration = 1/5, ev_intensity = 25 \<rparr>]"
    by code_simp
  from absent_measurement_ends_violation [OF p a, of default_thresholds ?s] act ev
  show ?thesis by (simp add: view_events)
qed

text \<open>
  C10: a violation that starts on a frame (the category was inactive, its condition
  holds) has duration 0 after that frame; if the condition is false on the next frame,
  or \<open>finalize\<close> comes next, no event of the category is added, whatever the
  timestamps are.
\<close>

theorem single_frame_violation_discarded:
  assumes "\<not> active (active_violations s c)" and "spec_condition c fr1 thr"
  shows "duration (active_violations (update_frame thr s fr1) c) = 0
    \<and> (\<not> spec_condition c fr2 thr \<longrightarrow>
         cat_events c (update_frame thr (update_frame thr s fr1) fr2) = cat_events c s
         \<and> counts (update_frame thr (update_frame thr s fr1) fr2) c = counts s c)
    \<and> cat_events c (finalize (update_frame thr s fr1)) = cat_events c s
    \<and> counts (finalize (update_frame thr s fr1)) c = counts s c"
proof -
  let ?s1 = "update_frame thr s fr1"
  have st: "active_violations ?s1 c =
      \<lparr> active = True, start_time = fs_timestamp fr1, duration = 0,
        max_intensity = spec_intensity c fr1 0 \<rparr>"
    using assms by (simp add: update_frame_state [where d = 0])
  have v1: "cat_view c ?s1 = (active_violations ?s1 c, counts s c, timestamps s c,
      max_intensities s c, cat_events c s)"
    using assms
    by (simp add: cat_view_update [where d = 0] cat_step_def) (simp add: cat_view_def st)
  have cnt2: "\<not> spec_condition c fr2 thr \<Longrightarrow> counts (update_frame thr ?s1 fr2) c = counts s c"
  proof -
    assume b: "\<not> spec_condition c fr2 thr"
    have "cat_view c (update_frame thr ?s1 fr2) =
        cat_step c False (fs_timestamp fr2) (spec_intensity c fr2 0) (cat_view c ?s1)"
      by (simp only: cat_view_update [of c thr ?s1 fr2 0] b)
    also have "\<dots> = (active_violations ?s1 c\<lparr> active := False \<rparr>, counts s c, timestamps s c,
        max_intensities s c, cat_events c s)"
      unfolding v1 by (simp add: cat_step_def cat_end_def st float_0_15_pos)
    finally have "fst (snd (cat_view c (update_frame thr ?s1 fr2))) = counts s c"
      by (simp only: fst_conv snd_conv)
    then show ?thesis
      by (simp only: cat_view_def fst_conv snd_conv)
  qed
  have cntf: "counts (finalize ?s1) c = counts s c"
  proof -
    have "cat_view c (finalize ?s1) =
        (if active (fst (cat_view c ?s1)) then cat_end c (cat_view c ?s1) else cat_view c ?s1)"
      by (rule cat_view_finalize)
    also have "\<dots> = (active_violations ?s1 c\<lparr> active := False \<rparr>, counts s c, timestamps s c,
        max_intensities s c, cat_events c s)"
      unfolding v1 by (simp add: cat_end_def st float_0_15_pos)
    finally have "fst (snd (cat_view c (finalize ?s1))) = counts s c"
      by (simp only: fst_conv snd_conv)
    then show ?thesis
      by (simp only: cat_view_def fst_conv snd_conv)
  qed
  show ?thesis
    using cnt2 cntf assms
    by (simp add: st update_frame_events finalize_events emitted_def float_0_15_pos)
qed

theorem single_frame_violation_discarded_witness:
  "cat_events gaze_right
     (update_frame default_thresholds
        (update_frame default_thresholds init_tracker (gaze_frame 0 (Some 25)))
        (gaze_frame 100 (Some 0))) = []
   \<and> cat_events gaze_right
       (finalize (update_frame default_thresholds init_tracker (gaze_frame 0 (Some 25)))) = []"
proof -
  have a: "\<not> active (active_violations init_tracker gaze_right)"
    by (simp add: init_tracker_def)
  have b: "spec_condition gaze_right (gaze_frame 0 (Some 25)) default_thresholds"
    by (simp add: gaze_frame_def neutral_frame_def default_thresholds_def)
  have c: "\<not> spec_condition gaze_right (gaze_frame 100 (Some 0)) default_thresholds"
    by (simp add: gaze_frame_def neutral_frame_def default_thresholds_def)
  have e: "cat_events gaze_right init_tracker = []"
    by (simp add: cat_events_def init_tracker_def)
  from single_frame_violation_discarded [OF a b, of "gaze_frame 100 (Some 0)"] c e
  show ?thesis by simp
qed

text \<open>
  C1: the events of a category after the frame loop and \<open>finalize\<close> are exactly the
  events of its spans, one for each span whose accumulated duration (the float
  difference of its last and first timestamp, as the tracker stores it) is at least
  the float 0.15, and none for the others, in the order of the spans.  An event is
  appended by \<open>update\<close> only on a frame where the condition is false and the
  category was active, and by \<open>finalize\<close> only for a category still active, each
  time only if the stored duration is at least 0.15; after either the category is
  inactive, so the span gives no second event.
\<close>

theorem event_created_once_per_span:
  "cat_events c (process_frames thr frames) = spec_events c thr frames
   \<and> cat_events c (update_frame thr s fr) =
       cat_events c s @
         (if spec_condition c fr thr then [] else emitted c (active_violations s c))
   \<and> (\<not> spec_condition c fr thr \<longrightarrow> \<not> active (active_violations (update_frame thr s fr) c))
   \<and> cat_events c (finalize s) = cat_events c s @ emitted c (active_violations s c)
   \<and> \<not> active (active_violations (finalize s) c)
   \<and> cat_events c (finalize (finalize s)) = cat_events c (finalize s)"
  by (simp add: process_frames_refines update_frame_events finalize_events
      emitted_inactive finalize_state update_frame_state [where d = 0])

theorem event_created_once_per_span_witness:
  "cat_events gaze_right (process_frames default_thresholds flicker_frames) =
     [\<lparr> ev_type = gaze_right, ev_timestamp = frame_time 4 20, ev_duration = 1/5,
        ev_intensity = 28 \<rparr>]
   \<and> cat_events gaze_right (process_frames default_thresholds (gaze_run 25 [0, 1, 2, 3])) =
       [\<lparr> ev_type = gaze_right, ev_timestamp = 0, ev_duration = 1/10, ev_intensity = 25 \<rparr>]
   \<and> cat_events gaze_right (process_frames default_thresholds (gaze_run 25 [4, 5, 6, 7])) = []
   \<and> \<not> spec_condition gaze_right (neutral_frame (frame_time 3 20)) default_thresholds
   \<and> \<not> active (active_violations
         (update_frame default_thresholds
            (feed_frames default_thresholds init_tracker (take 3 flicker_frames))
            (neutral_frame (frame_time 3 20))) gaze_right)"
proof -
  have e1: "spec_events gaze_right default_thresholds flicker_frames =
      [\<lparr> ev_type = gaze_right, ev_timestamp = frame_time 4 20, ev_duration = 1/5,
         ev_intensity = 28 \<rparr>]"
    by code_simp
  have e2: "spec_events gaze_right default_thresholds (gaze_run 25 [0, 1, 2, 3]) =
      [\<lparr> ev_type = gaze_right, ev_timestamp = 0, ev_duration = 1/10, ev_intensity = 25 \<rparr>]"
    by code_simp
  have e3: "spec_events gaze_right default_thresholds (gaze_run 25 [4, 5, 6, 7]) = []"
    by code_simp
  have b: "\<not> spec_condition gaze_right (neutral_frame (frame_time 3 20)) default_thresholds"
    by (simp add: neutral_frame_def default_thresholds_def)
  from event_created_once_per_span [of gaze_right default_thresholds flicker_frames
      "feed_frames default_thresholds init_tracker (take 3 flicker_frames)"
      "neutral_frame (frame_time 3 20)"]
    event_created_once_per_span [of gaze_right default_thresholds "gaze_run 25 [0, 1, 2, 3]"]
    event_created_once_per_span [of gaze_right default_thresholds "gaze_run 25 [4, 5, 6, 7]"]
    e1 e2 e3 b
  show ?thesis by simp
qed

section \<open>Events and the frames they come from\<close>

lemma spans_segment:
  "sp \<in> set (spans obs) \<Longrightarrow>
     \<exists>pre mid post. obs = pre @ mid @ post \<and> mid \<noteq> [] \<and> (\<forall>x\<in>set mid. fst x)
       \<and> sp = map snd mid"
proof (induction obs arbitrary: sp rule: spans.induct)
  case 1
  then show ?case by simp
next
  case (2 x xs)
  show ?case
  proof (cases "fst x")
    case True
    from "2.prems" True
    consider "sp = snd x # map snd (takeWhile fst xs)" | "sp \<in> set (spans (dropWhile fst xs))"
      by auto
    then show ?thesis
    proof cases
      case 1
      have "x # xs = [] @ (x # takeWhile fst xs) @ dropWhile fst xs" by simp
      moreover have "\<forall>y\<in>set (x # takeWhile fst xs). fst y"
        using True by (auto dest: set_takeWhileD)
      moreover have "sp = map snd (x # takeWhile fst xs)" using 1 by simp
      ultimately show ?thesis by blast
    next
      case 2
      from "2.IH"(1) [OF True 2] obtain pre mid post where
        d: "dropWhile fst xs = pre @ mid @ post" and m: "mid \<noteq> []" "\<forall>y\<in>set mid. fst y"
        "sp = map snd mid" by blast
      have "x # xs = (x # takeWhile fst xs @ pre) @ mid @ post"
        using d takeWhile_dropWhile_id [of fst xs] by (metis append_Cons append_assoc)
      with m show ?thesis by blast
    qed
  next
    case False
    with "2.prems" have "sp \<in> set (spans xs)" by simp
    from "2.IH"(2) [OF False this] obtain pre mid post where
      d: "xs = pre @ mid @ post" and m: "mid \<noteq> []" "\<forall>y\<in>set mid. fst y" "sp = map snd mid"
      by blast
    have "x # xs = (x # pre) @ mid @ post" using d by simp
    with m show ?thesis by blast
  qed
qed

lemma spans_frames:
  assumes "sp \<in> set (spans (map (observe c thr) frames))"
  shows "\<exists>pre span post. frames = pre @ span @ post \<and> span \<noteq> []
    \<and> (\<forall>fr\<in>set span. spec_condition c fr thr)
    \<and> sp = map (\<lambda>fr. (fs_timestamp fr, spec_intensity c fr 0)) span"
proof -
  from spans_segment [OF assms] obtain pre mid post where
    d: "map (observe c thr) frames = pre @ mid @ post" and m: "mid \<noteq> []"
    "\<forall>x\<in>set mid. fst x" "sp = map snd mid" by blast
  from d have "\<exists>us vs. frames = us @ vs \<and> pre = map (observe c thr) us
      \<and> mid @ post = map (observe c thr) vs"
    by (simp add: map_eq_append_conv)
  then obtain fpre frest where f1: "frames = fpre @ frest" "pre = map (observe c thr) fpre"
    "mid @ post = map (observe c thr) frest"
    by blast
  from f1(3) have "\<exists>us vs. frest = us @ vs \<and> mid = map (observe c thr) us
      \<and> post = map (observe c thr) vs"
    by (simp add: append_eq_map_conv)
  then obtain fmid fpost where f2: "frest = fmid @ fpost"
    "mid = map (observe c thr) fmid" "post = map (observe c thr) fpost"
    by blast
  have "frames = fpre @ fmid @ fpost" using f1 f2 by simp
  moreover have "fmid \<noteq> []" using m f2 by auto
  moreover have "\<forall>fr\<in>set fmid. spec_condition c fr thr"
    using m(2) f2(2) by (auto simp: observe_def)
  moreover have "sp = map (\<lambda>fr. (fs_timestamp fr, spec_intensity c fr 0)) fmid"
    using m(3) f2(2) by (auto simp: observe_def)
  ultimately show ?thesis by blast
qed

lemma event_of_span:
  assumes "e \<in> set (violation_events (process_frames thr frames))"
  shows "\<exists>sp\<in>set (spans (map (observe (ev_type e) thr) frames)).
           span_event (ev_type e) sp = Some e"
proof -
  from assms have "e \<in> set (cat_events (ev_type e) (process_frames thr frames))"
    by (simp add: cat_events_def)
  then have "e \<in> set (spec_events (ev_type e) thr frames)"
    by (simp only: process_frames_refines)
  then show ?thesis
    by (auto simp: spec_events_def List.map_filter_def)
qed

text \<open>
  C7 (as amended): every event the tracker creates belongs to a run of consecutive
  frames on which the condition of its category holds; its timestamp is that of the
  first frame, its duration the float difference of the last and the first timestamp
  rounded to one decimal (a multiple of 0.1), and its intensity the largest intensity
  of the run, not rounded: the peak absolute angle for the eight angle categories, and
  the number 0 for the two presence categories.
\<close>

theorem event_duration_and_peak:
  assumes "e \<in> set (violation_events (process_frames thr frames))"
  shows "(\<exists>pre span post. frames = pre @ span @ post \<and> span \<noteq> []
            \<and> (\<forall>fr\<in>set span. spec_condition (ev_type e) fr thr)
            \<and> ev_timestamp e = fs_timestamp (hd span)
            \<and> ev_duration e =
                py_round (float_sub (fs_timestamp (last span)) (fs_timestamp (hd span))) 1
            \<and> ev_intensity e = Max ((\<lambda>fr. spec_intensity (ev_type e) fr 0) ` set span))
    \<and> (\<exists>k::int. ev_duration e = of_int k / 10)
    \<and> (is_presence (ev_type e) \<longrightarrow> ev_intensity e = 0)"
proof -
  let ?c = "ev_type e"
  from event_of_span [OF assms] obtain sp where
    sp: "sp \<in> set (spans (map (observe ?c thr) frames))" and ev: "span_event ?c sp = Some e"
    by blast
  from spans_frames [OF sp] obtain pre span post where
    fr: "frames = pre @ span @ post" "span \<noteq> []" "\<forall>fr\<in>set span. spec_condition ?c fr thr"
    and spm: "sp = map (\<lambda>fr. (fs_timestamp fr, spec_intensity ?c fr 0)) span"
    by blast
  from ev have e: "e = \<lparr> ev_type = ?c, ev_timestamp = fst (hd sp),
      ev_duration = py_round (span_duration sp) 1, ev_intensity = span_peak sp \<rparr>"
    by (simp add: span_event_def split: if_splits)
  have t: "ev_timestamp e = fs_timestamp (hd span)"
    by (subst e) (simp add: spm fr(2) hd_map)
  have d: "ev_duration e =
      py_round (float_sub (fs_timestamp (last span)) (fs_timestamp (hd span))) 1"
    by (subst e) (simp add: spm fr(2) hd_map last_map span_duration_def)
  have i: "ev_intensity e = Max ((\<lambda>fr. spec_intensity ?c fr 0) ` set span)"
    by (subst e) (simp add: spm span_peak_def image_image)
  have k: "\<exists>k::int. ev_duration e = of_int k / 10"
    unfolding d by (simp add: py_round_def)
  have z: "is_presence ?c \<longrightarrow> ev_intensity e = 0"
  proof
    assume "is_presence ?c"
    then have "(\<lambda>fr. spec_intensity ?c fr 0) ` set span = {0}"
      using fr(2) by (cases span) (auto simp: spec_intensity_def)
    then show "ev_intensity e = 0" by (simp add: i)
  qed
  from fr t d i k z show ?thesis by blast
qed

theorem event_duration_and_peak_witness:
  "\<lparr> ev_type = gaze_right, ev_timestamp = frame_time 1 20, ev_duration = 1/2,
      ev_intensity = 25 \<rparr>
       \<in> set (violation_events
                (process_frames default_thresholds
                   (gaze_run 25 [1, 2, 3, 4, 5, 6, 7, 8, 9, 10])))
   \<and> py_round (float_sub (frame_time 10 20) (frame_time 1 20)) 1 = 1/2
   \<and> is_presence face_missing
   \<and> \<lparr> ev_type = face_missing, ev_timestamp = 0, ev_duration = 1/5, ev_intensity = 0 \<rparr>
       \<in> set (violation_events
                (process_frames default_thresholds
                   [no_face_frame 0, no_face_frame (frame_time 4 20)]))"
proof -
  let ?e = "\<lparr> ev_type = gaze_right, ev_timestamp = frame_time 1 20, ev_duration = 1/2,
    ev_intensity = 25::real \<rparr>"
  let ?f = "\<lparr> ev_type = face_missing, ev_timestamp = 0, ev_duration = 1/5,
    ev_intensity = 0::real \<rparr>"
  have m: "?e \<in> set (violation_events (process_frames default_thresholds
      (gaze_run 25 [1, 2, 3, 4, 5, 6, 7, 8, 9, 10])))"
    by code_simp
  have n: "?f \<in> set (violation_events
      (process_frames default_thresholds [no_face_frame 0, no_face_frame (frame_time 4 20)]))"
    by code_simp
  have p: "is_presence face_missing" by (simp add: is_presence_def)
  have r: "py_round (float_sub (frame_time 10 20) (frame_time 1 20)) 1 = 1/2"
    by code_simp
  from event_duration_and_peak [OF m] event_duration_and_peak [OF n] m n p r
  show ?thesis by simp
qed

text \<open>
  C7 as stated fails: a gaze of 25.375 degrees to the right held over the frames 0 to 4
  of a 20 fps video gives an event whose intensity is 25.375, not 25; and a missing
  face held over the same frames gives an event that does carry an intensity, the
  number 0.
\<close>

theorem event_intensity_rounded_counterexample:
  "violation_events (process_frames default_thresholds (gaze_run (203/8) [0, 1, 2, 3, 4])) =
     [\<lparr> ev_type = gaze_right, ev_timestamp = 0, ev_duration = 1/5,
        ev_intensity = 203/8 \<rparr>]
   \<and> py_round (203/8) 0 = 25
   \<and> violation_events (process_frames default_thresholds
         [no_face_frame 0, no_face_frame (frame_time 4 20)]) =
       [\<lparr> ev_type = face_missing, ev_timestamp = 0, ev_duration = 1/5, ev_intensity = 0 \<rparr>]"
  by code_simp

section \<open>The report, group by group\<close>

lemma head_names:
  "category_name c \<in> set [''head_left'', ''head_right'', ''head_up'', ''head_down''] \<longleftrightarrow>
     c \<in> set [head_left, head_right, head_up, head_down]"
  by (cases c) simp_all

lemma gaze_names:
  "category_name c \<in> set [''gaze_left'', ''gaze_right'', ''gaze_up'', ''gaze_down''] \<longleftrightarrow>
     c \<in> set [gaze_left, gaze_right, gaze_up, gaze_down]"
  by (cases c) simp_all

lemma face_missing_name: "category_name c = ''face_missing'' \<longleftrightarrow> c \<in> set [face_missing]"
  by (cases c) simp_all

lemma multiple_faces_name:
  "category_name c = ''multiple_faces'' \<longleftrightarrow> c \<in> set [multiple_faces]"
  by (cases c) simp_all

lemma head_occurrence:
  "ev_type e \<in> set [head_left, head_right, head_up, head_down] \<Longrightarrow>
     movement_occurrence sf ''head_'' e = spec_occurrence sf e"
  by (auto simp: spec_occurrence_def is_presence_def category_prefix_def)

lemma gaze_occurrence:
  "ev_type e \<in> set [gaze_left, gaze_right, gaze_up, gaze_down] \<Longrightarrow>
     movement_occurrence sf ''gaze_'' e = spec_occurrence sf e"
  by (auto simp: spec_occurrence_def is_presence_def category_prefix_def)

lemma head_map:
  "map (movement_occurrence sf ''head_'')
       (sort_key k (filter (\<lambda>e. ev_type e \<in> set [head_left, head_right, head_up, head_down]) xs)) =
   map (spec_occurrence sf)
       (sort_key k (filter (\<lambda>e. ev_type e \<in> set [head_left, head_right, head_up, head_down]) xs))"
  by (rule map_cong) (auto simp: head_occurrence)

lemma gaze_map:
  "map (movement_occurrence sf ''gaze_'')
       (sort_key k (filter (\<lambda>e. ev_type e \<in> set [gaze_left, gaze_right, gaze_up, gaze_down]) xs)) =
   map (spec_occurrence sf)
       (sort_key k (filter (\<lambda>e. ev_type e \<in> set [gaze_left, gaze_right, gaze_up, gaze_down]) xs))"
  by (rule map_cong) (auto simp: gaze_occurrence)

lemma report_by_groups:
  "generate_new_format_report sf events = concat (map (group_gesture sf events) spec_groups)"
  unfolding generate_new_format_report_def Let_def head_names gaze_names face_missing_name
    multiple_faces_name head_map gaze_map
  by (auto simp: spec_groups_def group_gesture_def spec_occurrence_def is_presence_def)

lemma head_direction:
  "c \<in> set [head_left, head_right, head_up, head_down] \<Longrightarrow>
     category_name c = ''head_'' @ py_replace ''head_'' [] (category_name c)"
  by (cases c) simp_all

lemma gaze_direction:
  "c \<in> set [gaze_left, gaze_right, gaze_up, gaze_down] \<Longrightarrow>
     category_name c = ''gaze_'' @ py_replace ''gaze_'' [] (category_name c)"
  by (cases c) simp_all

lemma group_gesture_elem:
  assumes "g \<in> set (group_gesture sf events grp)"
  shows "g_name g = fst grp
    \<and> g_occurrence g = map (spec_occurrence sf)
        (sort_key ev_timestamp (filter (\<lambda>e. ev_type e \<in> set (snd grp)) events))
    \<and> filter (\<lambda>e. ev_type e \<in> set (snd grp)) events \<noteq> []"
  using assms by (auto simp: group_gesture_def Let_def split: if_splits)

lemma group_members_simps:
  "group_members ''head_movement'' = [head_left, head_right, head_up, head_down]"
  "group_members ''Eye_movement'' = [gaze_left, gaze_right, gaze_up, gaze_down]"
  "group_members ''face_missing'' = [face_missing]"
  "group_members ''multiple_faces'' = [multiple_faces]"
  by (simp_all add: group_members_def spec_groups_def)

lemma report_elem:
  assumes "g \<in> set (generate_new_format_report sf events)"
  shows "g_name g \<in> fst ` set spec_groups
    \<and> g_occurrence g = map (spec_occurrence sf)
        (sort_key ev_timestamp
           (filter (\<lambda>e. ev_type e \<in> set (group_members (g_name g))) events))
    \<and> filter (\<lambda>e. ev_type e \<in> set (group_members (g_name g))) events \<noteq> []"
proof -
  from assms obtain grp where grp: "grp \<in> set spec_groups"
    and g: "g \<in> set (group_gesture sf events grp)"
    by (auto simp: report_by_groups)
  from grp have m: "group_members (fst grp) = snd grp"
    by (auto simp: spec_groups_def group_members_simps)
  from group_gesture_elem [OF g] grp m show ?thesis by auto
qed

lemma py_round_0: "py_round x 0 = of_int (round_half_even x)"
  by (simp add: py_round_def)

text \<open>
  C6 (as amended): every group of the report is named head_movement, Eye_movement
  (with a capital E), face_missing or multiple_faces.  Each occurrence of the first
  two comes from an event whose category name is the prefix head_ or gaze_ followed
  by the occurrence's direction, and its intensity is the rendering of the event's
  intensity rounded to a whole number, followed by " degrees".  In the two presence
  groups direction and intensity are empty strings.
\<close>

theorem report_group_names_and_rendering:
  assumes "g \<in> set (generate_new_format_report str_float events)"
  shows "g_name g \<in> {''head_movement'', ''Eye_movement'', ''face_missing'', ''multiple_faces''}
    \<and> (\<forall>occ\<in>set (g_occurrence g). \<exists>e\<in>set events.
          (g_name g = ''head_movement'' \<longrightarrow>
             category_name (ev_type e) = ''head_'' @ occ_direction occ
             \<and> occ_intensity occ =
                 str_float (of_int (round_half_even (ev_intensity e))) @ '' degrees'')
        \<and> (g_name g = ''Eye_movement'' \<longrightarrow>
             category_name (ev_type e) = ''gaze_'' @ occ_direction occ
             \<and> occ_intensity occ =
                 str_float (of_int (round_half_even (ev_intensity e))) @ '' degrees'')
        \<and> (g_name g = ''face_missing'' \<or> g_name g = ''multiple_faces'' \<longrightarrow>
             occ_direction occ = [] \<and> occ_intensity occ = []))"
proof -
  let ?es = "filter (\<lambda>e. ev_type e \<in> set (group_members (g_name g))) events"
  from report_elem [OF assms] have
    n: "g_name g \<in> {''head_movement'', ''Eye_movement'', ''face_missing'', ''multiple_faces''}"
    and o: "g_occurrence g = map (spec_occurrence str_float) (sort_key ev_timestamp ?es)"
    by (auto simp: spec_groups_def)
  have "\<exists>e\<in>set events.
          (g_name g = ''head_movement'' \<longrightarrow>
             category_name (ev_type e) = ''head_'' @ occ_direction occ
             \<and> occ_intensity occ =
                 str_float (of_int (round_half_even (ev_intensity e))) @ '' degrees'')
        \<and> (g_name g = ''Eye_movement'' \<longrightarrow>
             category_name (ev_type e) = ''gaze_'' @ occ_direction occ
             \<and> occ_intensity occ =
                 str_float (of_int (round_half_even (ev_intensity e))) @ '' degrees'')
        \<and> (g_name g = ''face_missing'' \<or> g_name g = ''multiple_faces'' \<longrightarrow>
             occ_direction occ = [] \<and> occ_intensity occ = [])"
    if "occ \<in> set (g_occurrence g)" for occ
  proof -
    from that o obtain e where e: "e \<in> set events"
      "ev_type e \<in> set (group_members (g_name g))" "occ = spec_occurrence str_float e"
      by auto
    have h: "g_name g = ''head_movement'' \<Longrightarrow>
        category_name (ev_type e) = ''head_'' @ occ_direction occ
        \<and> occ_intensity occ =
            str_float (of_int (round_half_even (ev_intensity e))) @ '' degrees''"
      using e(2) head_direction [of "ev_type e"]
      by (auto simp: e(3) group_members_simps spec_occurrence_def is_presence_def
          category_prefix_def movement_occurrence_def py_round_0)
    have z: "g_name g = ''Eye_movement'' \<Longrightarrow>
        category_name (ev_type e) = ''gaze_'' @ occ_direction occ
        \<and> occ_intensity occ =
            str_float (of_int (round_half_even (ev_intensity e))) @ '' degrees''"
      using e(2) gaze_direction [of "ev_type e"]
      by (auto simp: e(3) group_members_simps spec_occurrence_def is_presence_def
          category_prefix_def movement_occurrence_def py_round_0)
    have p: "g_name g = ''face_missing'' \<or> g_name g = ''multiple_faces'' \<Longrightarrow>
        occ_direction occ = [] \<and> occ_intensity occ = []"
      using e(2)
      by (auto simp: e(3) group_members_simps spec_occurrence_def is_presence_def
          presence_occurrence_def)
    from e(1) h z p show ?thesis by blast
  qed
  with n show ?thesis by blast
qed

theorem report_group_names_and_rendering_witness:
  "generate_new_format_report str_float_whole sample_events =
     [\<lparr> g_name = ''head_movement'',
         g_occurrence =
           [\<lparr> occ_timestamp = ''0:05'', occ_duration = 3/10, occ_direction = ''up'',
               occ_intensity = ''22.0 degrees'' \<rparr>,
            \<lparr> occ_timestamp = ''1:10'', occ_duration = 1/5, occ_direction = ''left'',
               occ_intensity = ''36.0 degrees'' \<rparr>] \<rparr>,
      \<lparr> g_name = ''Eye_movement'',
         g_occurrence =
           [\<lparr> occ_timestamp = ''0:09'', occ_duration = 1/5, occ_direction = ''right'',
               occ_intensity = ''13.0 degrees'' \<rparr>] \<rparr>,
      \<lparr> g_name = ''face_missing'',
         g_occurrence =
           [\<lparr> occ_timestamp = ''0:03'', occ_duration = 2/5, occ_direction = [],
               occ_intensity = [] \<rparr>] \<rparr>]
   \<and> (\<exists>e. e \<in> set sample_events \<and> category_name (ev_type e) = ''head_'' @ ''up'')
   \<and> (\<exists>e. e \<in> set sample_events \<and> category_name (ev_type e) = ''gaze_'' @ ''right'')"
proof -
  let ?h = "\<lparr> g_name = ''head_movement'',
      g_occurrence =
        [\<lparr> occ_timestamp = ''0:05'', occ_duration = 3/10, occ_direction = ''up'',
            occ_intensity = ''22.0 degrees'' \<rparr>,
         \<lparr> occ_timestamp = ''1:10'', occ_duration = 1/5, occ_direction = ''left'',
            occ_intensity = ''36.0 degrees'' \<rparr>] \<rparr>"
  let ?g = "\<lparr> g_name = ''Eye_movement'',
      g_occurrence =
        [\<lparr> occ_timestamp = ''0:09'', occ_duration = 1/5, occ_direction = ''right'',
            occ_intensity = ''13.0 degrees'' \<rparr>] \<rparr>"
  let ?f = "\<lparr> g_name = ''face_missing'',
      g_occurrence =
        [\<lparr> occ_timestamp = ''0:03'', occ_duration = 2/5, occ_direction = [],
            occ_intensity = [] \<rparr>] \<rparr>"
  have r: "generate_new_format_report str_float_whole sample_events = [?h, ?g, ?f]"
    by code_simp
  have mh: "?h \<in> set (generate_new_format_report str_float_whole sample_events)"
    and mg: "?g \<in> set (generate_new_format_report str_float_whole sample_events)"
    and mf: "?f \<in> set (generate_new_format_report str_float_whole sample_events)"
    by (simp_all only: r list.set insert_iff simp_thms)
  from report_group_names_and_rendering [OF mh] have
    "\<exists>e. e \<in> set sample_events \<and> category_name (ev_type e) = ''head_'' @ ''up''"
    by (auto simp del: One_nat_def)
  moreover from report_group_names_and_rendering [OF mg] have
    "\<exists>e. e \<in> set sample_events \<and> category_name (ev_type e) = ''gaze_'' @ ''right''"
    by (auto simp del: One_nat_def)
  moreover from report_group_names_and_rendering [OF mf] have
    "g_name ?f \<in> {''head_movement'', ''Eye_movement'', ''face_missing'', ''multiple_faces''}"
    by blast
  ultimately show ?thesis using r by blast
qed

text \<open>
  C6 as stated fails: a single gaze event gives one group, and its name is
  Eye_movement, which is none of the four names of the claim.
\<close>

theorem report_group_names_counterexample:
  "map g_name (generate_new_format_report str_float_whole
       [\<lparr> ev_type = gaze_right, ev_timestamp = 0, ev_duration = 1/5, ev_intensity = 25 \<rparr>]) =
     [''Eye_movement'']
   \<and> ''Eye_movement'' \<notin> {''head_movement'', ''eye_movement'', ''face_missing'', ''multiple_faces''}"
  by code_simp

text \<open>
  C8: every group of the report has at least one occurrence, and its occurrences are
  those of the events of the group, taken in ascending order of their start times;
  the groups emitted are, in the fixed order, exactly those with at least one event.
\<close>

theorem report_groups_nonempty_sorted:
  "(\<forall>g\<in>set (generate_new_format_report str_float events).
      g_occurrence g \<noteq> []
      \<and> (\<exists>es. mset es = mset (filter (\<lambda>e. ev_type e \<in> set (group_members (g_name g))) events)
            \<and> sorted (map ev_timestamp es)
            \<and> g_occurrence g = map (spec_occurrence str_float) es))
   \<and> map g_name (generate_new_format_report str_float events) =
       filter (\<lambda>n. \<exists>e\<in>set events. ev_type e \<in> set (group_members n)) (map fst spec_groups)"
proof (intro conjI ballI)
  fix g assume g: "g \<in> set (generate_new_format_report str_float events)"
  let ?es = "filter (\<lambda>e. ev_type e \<in> set (group_members (g_name g))) events"
  from report_elem [OF g] have
    o: "g_occurrence g = map (spec_occurrence str_float) (sort_key ev_timestamp ?es)"
    and ne: "?es \<noteq> []" by auto
  from ne have "sort_key ev_timestamp ?es \<noteq> []"
    by (metis length_0_conv length_sort)
  with o show "g_occurrence g \<noteq> []" by simp
  have "mset (sort_key ev_timestamp ?es) = mset ?es \<and>
      sorted (map ev_timestamp (sort_key ev_timestamp ?es))"
    by (simp add: sorted_sort_key)
  with o show "\<exists>es. mset es = mset ?es \<and> sorted (map ev_timestamp es)
      \<and> g_occurrence g = map (spec_occurrence str_float) es"
    by blast
next
  have e: "sort_key ev_timestamp xs = [] \<longleftrightarrow> xs = []" for xs :: "violation_event list"
    by (metis length_0_conv length_sort)
  show "map g_name (generate_new_format_report str_float events) =
      filter (\<lambda>n. \<exists>e\<in>set events. ev_type e \<in> set (group_members n)) (map fst spec_groups)"
    by (simp add: report_by_groups spec_groups_def group_gesture_def e filter_empty_conv
        group_members_simps)
qed

theorem report_groups_nonempty_sorted_witness:
  "map g_name (generate_new_format_report str_float_whole sample_events) =
     [''head_movement'', ''Eye_movement'', ''face_missing'']
   \<and> g_occurrence (hd (generate_new_format_report str_float_whole sample_events)) \<noteq> []"
proof -
  let ?r = "generate_new_format_report str_float_whole sample_events"
  have f: "filter (\<lambda>n. \<exists>e\<in>set sample_events. ev_type e \<in> set (group_members n))
      (map fst spec_groups) = [''head_movement'', ''Eye_movement'', ''face_missing'']"
    by (simp add: sample_events_def spec_groups_def group_members_simps)
  note t = report_groups_nonempty_sorted [of str_float_whole sample_events]
  from t f have n: "map g_name ?r = [''head_movement'', ''Eye_movement'', ''face_missing'']"
    by simp
  then have "?r \<noteq> []" by auto
  then have "hd ?r \<in> set ?r" by simp
  with t have "g_occurrence (hd ?r) \<noteq> []" by blast
  with n show ?thesis by simp
qed

section \<open>The rolling history and the Euler angles\<close>

lemma list5:
  "length (ys :: 'a list) = 5 \<Longrightarrow> ys = [ys ! 0, ys ! 1, ys ! 2, ys ! 3, ys ! 4]"
  by (auto simp: length_Suc_conv eval_nat_numeral)

lemma np_average_last5:
  fixes xs :: "real list"
  assumes "5 \<le> length xs"
  shows "np_average (drop (length xs - 5) xs) weights = spec_weighted_last5 xs"
proof -
  let ?k = "length xs - 5"
  let ?ys = "drop ?k xs"
  have len: "length ?ys = 5" using assms by simp
  have nth: "?ys ! i = xs ! (?k + i)" if "i < 5" for i
    using that assms by simp
  have idx: "length xs - 4 = ?k + 1" "length xs - 3 = ?k + 2" "length xs - 2 = ?k + 3"
    "length xs - 1 = ?k + 4"
    using assms by simp_all
  have "np_average ?ys weights =
      np_average [?ys ! 0, ?ys ! 1, ?ys ! 2, ?ys ! 3, ?ys ! 4] weights"
    using list5 [OF len] by simp
  also have "\<dots> = 0.10 * ?ys ! 0 + 0.15 * ?ys ! 1 + 0.20 * ?ys ! 2 + 0.25 * ?ys ! 3
      + 0.30 * ?ys ! 4"
    by (simp add: np_average_def weights_def)
  also have "\<dots> = spec_weighted_last5 xs"
    unfolding spec_weighted_last5_def Let_def idx
    using nth [of 0] nth [of 1] nth [of 2] nth [of 3] nth [of 4] by simp
  finally show ?thesis .
qed

text \<open>
  C4: the Kalman result is appended to the history, which holds at most 7 entries:
  when it already holds 7 the oldest is dropped.  With at least 5 entries in the new
  history the returned angles are the weighted averages of its last 5 entries, weights
  0.10, 0.15, 0.20, 0.25, 0.30 from oldest to newest; with fewer they are the Kalman
  result.  Either way each returned angle is rounded to two decimals.
\<close>

theorem gaze_history_weighted_average:
  assumes "length gaze_history \<le> 7"
  shows "snd (detect_gaze_smooth gaze_history (kh, kv)) =
           (if length gaze_history = 7 then tl gaze_history else gaze_history) @ [(kh, kv)]
    \<and> length (snd (detect_gaze_smooth gaze_history (kh, kv))) \<le> 7
    \<and> fst (detect_gaze_smooth gaze_history (kh, kv)) =
        (if 5 \<le> length (snd (detect_gaze_smooth gaze_history (kh, kv)))
         then (py_round (spec_weighted_last5
                  (map fst (snd (detect_gaze_smooth gaze_history (kh, kv))))) 2,
               py_round (spec_weighted_last5
                  (map snd (snd (detect_gaze_smooth gaze_history (kh, kv))))) 2)
         else (py_round kh 2, py_round kv 2))
    \<and> (\<exists>m n :: int. fst (detect_gaze_smooth gaze_history (kh, kv)) =
          (of_int m / 100, of_int n / 100))"
proof -
  let ?h2 = "snd (detect_gaze_smooth gaze_history (kh, kv))"
  have h2: "?h2 = (if length gaze_history = 7 then tl gaze_history else gaze_history) @ [(kh, kv)]"
    using assms
    by (cases gaze_history) (auto simp: detect_gaze_smooth_def Let_def max_history_size_def)
  have len: "length ?h2 \<le> 7"
    using assms by (auto simp: h2)
  have avg: "np_average (map f (drop (length ?h2 - 5) ?h2)) weights =
      spec_weighted_last5 (map f ?h2)" if "5 \<le> length ?h2" for f :: "real \<times> real \<Rightarrow> real"
    using np_average_last5 [of "map f ?h2"] that by (simp add: drop_map)
  have out: "fst (detect_gaze_smooth gaze_history (kh, kv)) =
      (if 5 \<le> length ?h2
       then (py_round (spec_weighted_last5 (map fst ?h2)) 2,
             py_round (spec_weighted_last5 (map snd ?h2)) 2)
       else (py_round kh 2, py_round kv 2))"
  proof (cases "5 \<le> length ?h2")
    case True
    have "fst (detect_gaze_smooth gaze_history (kh, kv)) =
        (py_round (np_average (map fst (drop (length ?h2 - 5) ?h2)) weights) 2,
         py_round (np_average (map snd (drop (length ?h2 - 5) ?h2)) weights) 2)"
      using True by (simp add: detect_gaze_smooth_def Let_def)
    then show ?thesis using True by (simp only: avg [OF True] if_True)
  next
    case False
    then show ?thesis by (simp add: detect_gaze_smooth_def Let_def)
  qed
  have grid: "\<exists>m n :: int. fst (detect_gaze_smooth gaze_history (kh, kv)) =
      (of_int m / 100, of_int n / 100)"
    by (simp add: detect_gaze_smooth_def Let_def py_round_def)
  from h2 len out grid show ?thesis by blast
qed

theorem gaze_history_weighted_average_witness:
  "detect_gaze_smooth [(1, 1), (2, 2), (3, 3), (4, 4), (5, 5), (6, 6), (7, 7)] (8, 10) =
     ((13 / 2, 71 / 10), [(2, 2), (3, 3), (4, 4), (5, 5), (6, 6), (7, 7), (8, 10)])
   \<and> detect_gaze_smooth [(1, 1), (2, 2)] (1234 / 1000, 3) = ((123 / 100, 3), [(1, 1), (2, 2), (1234 / 1000, 3)])"
proof -
  have a: "length [(1::real, 1::real), (2, 2), (3, 3), (4, 4), (5, 5), (6, 6), (7, 7)] \<le> 7"
    by simp
  have b: "length [(1::real, 1::real), (2, 2)] \<le> 7" by simp
  have r1: "py_round (spec_weighted_last5 [2, 3, 4, 5, 6, 7, 8]) 2 = 13 / 2" by code_simp
  have r2: "py_round (spec_weighted_last5 [2, 3, 4, 5, 6, 7, 10]) 2 = 71 / 10" by code_simp
  have r3: "py_round (1234 / 1000) 2 = 123 / 100" "py_round 3 2 = 3" by code_simp+
  from gaze_history_weighted_average [OF a, of 8 10]
    gaze_history_weighted_average [OF b, of "1234 / 1000" 3] r1 r2 r3
  show ?thesis by (simp add: prod_eq_iff)
qed

text \<open>
  C5: away from the singularity the angles are taken by the standard extraction; when
  \<open>sqrt(R[0,0]^2 + R[1,0]^2)\<close> is below \<open>1e-6\<close>, pitch is taken from the middle row,
  yaw by the same formula, and roll is 0.
\<close>

theorem euler_angle_extraction:
  "(\<not> sqrt ((R 0 0)\<^sup>2 + (R 1 0)\<^sup>2) < 1 / 10 ^ 6 \<longrightarrow>
      euler_angles arctan2 R =
        (arctan2 (R 2 1) (R 2 2),
         arctan2 (- R 2 0) (sqrt ((R 0 0)\<^sup>2 + (R 1 0)\<^sup>2)),
         arctan2 (R 1 0) (R 0 0)))
   \<and> (sqrt ((R 0 0)\<^sup>2 + (R 1 0)\<^sup>2) < 1 / 10 ^ 6 \<longrightarrow>
      euler_angles arctan2 R =
        (arctan2 (- R 1 2) (R 1 1),
         arctan2 (- R 2 0) (sqrt ((R 0 0)\<^sup>2 + (R 1 0)\<^sup>2)),
         0))"
  by (simp add: euler_angles_def Let_def)

theorem euler_angle_extraction_witness:
  "euler_angles arctan2_real rot_identity = (0, 0, 0)
   \<and> euler_angles arctan2_real rot_quarter_yaw = (0, pi / 2, 0)"
proof -
  have a: "\<not> sqrt ((rot_identity 0 0)\<^sup>2 + (rot_identity 1 0)\<^sup>2) < 1 / 10 ^ 6"
    by (simp add: rot_identity_def)
  have b: "sqrt ((rot_quarter_yaw 0 0)\<^sup>2 + (rot_quarter_yaw 1 0)\<^sup>2) < 1 / 10 ^ 6"
    by (simp add: rot_quarter_yaw_def)
  from euler_angle_extraction [of rot_identity arctan2_real]
    euler_angle_extraction [of rot_quarter_yaw arctan2_real] a b
  show ?thesis
    by (simp add: rot_identity_def rot_quarter_yaw_def arctan2_real_def)
qed

section \<open>The smoother on an unchanging Kalman result\<close>












end
